theory Spec2Isabelle
  imports Main "HOL-Library.AList"
begin

section \<open>Values, exceptions and responses\<close>

text \<open>
  The module \<open>backend/common/resource.py\<close> builds REST resources on top of
  flask_restful and SQLAlchemy. Python values that travel through a request are
  modelled by \<open>pyval\<close>; \<open>PyNone\<close> is Python's \<open>None\<close> (a JSON null).
\<close>

datatype pyval = PyNone | PyInt int | PyStr string | PyBool bool

text \<open>
  Exceptions are values. A conversion function raises an \<open>error\<close>, which carries
  its text (\<open>str(error)\<close>).
\<close>

datatype error = ValueError string | TypeError string

fun str :: "error \<Rightarrow> string" where
  "str (ValueError m) = m"
| "str (TypeError m) = m"

text \<open>
  What can leave a handler is an \<open>exn\<close>: \<open>sqlalchemy.exc.IntegrityError\<close>, or
  the 400 abort of the request parser for an argument, \<open>ValidationError field message\<close>.
  The message of the abort is the text of the exception that the argument's
  conversion raised, or the text that the library composes for a required argument
  that is missing; the wording of the latter is the library's and is not modelled.
\<close>

datatype message = Raised string | Missing

datatype exn = IntegrityError | ValidationError string message

text \<open>
  What a handler returns: \<open>flask.Response(body, status)\<close>, a serialised dictionary,
  or nothing at all (Python's implicit \<open>None\<close>, an empty success).
\<close>

datatype 'd response = Response string nat | Dict 'd | Returned_None

section \<open>The request parser\<close>

text \<open>
  A conversion function (the \<open>type\<close> keyword of \<open>add_argument\<close>) is an arbitrary
  Python callable: it returns a value or raises, and it may have effects. The effects
  are made explicit by threading a state \<open>'s\<close> through every call, so that
  "the function was not called" is the statement that this state is untouched,
  whatever the function is.
\<close>

type_synonym 's type_func = "pyval \<Rightarrow> 's \<Rightarrow> (error + pyval) \<times> 's"

text \<open>
  The arguments of one \<open>add_argument\<close> call: the argument's name and the two
  keywords the source reads. A keyword that was not passed is \<open>None\<close>.
\<close>

record 's kwargs =
  name :: string
  required :: "bool option"
  type :: "'s type_func option"

text \<open>\<open>kwargs.get('required', False)\<close>.\<close>

definition is_required :: "'s kwargs \<Rightarrow> bool" where
  "is_required kw = (case required kw of None \<Rightarrow> False | Some b \<Rightarrow> b)"

text \<open>
  The two inner functions \<open>new_type_func\<close> of \<open>RequestParser.add_argument\<close>,
  selected by \<open>is_required\<close>: the first raises on \<open>None\<close>, the second returns
  \<open>None\<close> without calling \<open>type_func\<close>.
\<close>

definition new_type_func :: "bool \<Rightarrow> 's type_func \<Rightarrow> 's type_func" where
  "new_type_func req type_func arg s =
     (if req then
        (if arg = PyNone then (Inl (ValueError ''Required value may not be null''), s)
         else type_func arg s)
      else
        (if arg = PyNone then (Inr arg, s)
         else type_func arg s))"

text \<open>
  The parser object is the list of registered arguments. The base class's
  \<open>add_argument\<close> (flask_restful, reached through \<open>super\<close>) appends the argument.
\<close>

definition super_add_argument :: "'s kwargs \<Rightarrow> 's kwargs list \<Rightarrow> 's kwargs list" where
  "super_add_argument kw self = self @ [kw]"

definition add_argument :: "'s kwargs \<Rightarrow> 's kwargs list \<Rightarrow> 's kwargs list" where
  "add_argument kw self =
     (case type kw of
        Some type_func \<Rightarrow>
          super_add_argument (kw\<lparr>type := Some (new_type_func (is_required kw) type_func)\<rparr>) self
      | None \<Rightarrow> super_add_argument kw self)"

text \<open>
  Parsing itself is the base class's work. Its model follows \<open>Argument.parse\<close> and
  \<open>RequestParser.parse_args\<close> of the flask_restful releases the source was written
  for (up to 0.3.2), which its docstring describes: errors "come from calling the
  type function on null values".
  \<^item> An argument present in the payload is converted by its registered \<open>type\<close>, a
    null value like any other, or by the default conversion \<open>dflt\<close> when no
    \<open>type\<close> was registered. The theorems hold for every \<open>dflt\<close>; the library's
    own default is \<open>default_type\<close> below.
  \<^item> An exception raised by the conversion aborts the request with a 400 that carries
    the exception's text.
  \<^item> An argument absent from the payload aborts with a 400 when it is required, and
    is stored as \<open>None\<close> otherwise.
  \<^item> Arguments are parsed in the order they were added and the first failure ends
    the parse; the namespace is a dictionary, here an association list updated by key.
\<close>

definition convert :: "'s type_func \<Rightarrow> 's kwargs \<Rightarrow> 's type_func" where
  "convert dflt arg v s = (case type arg of None \<Rightarrow> dflt v s | Some f \<Rightarrow> f v s)"

definition parse :: "'s type_func \<Rightarrow> 's kwargs \<Rightarrow> (string \<rightharpoonup> pyval) \<Rightarrow> 's \<Rightarrow> (exn + pyval) \<times> 's" where
  "parse dflt arg source s =
     (case source (name arg) of
        Some v \<Rightarrow>
          (case convert dflt arg v s of
             (Inl error, s') \<Rightarrow> (Inl (ValidationError (name arg) (Raised (str error))), s')
           | (Inr v', s') \<Rightarrow> (Inr v', s'))
      | None \<Rightarrow>
          (if is_required arg
           then (Inl (ValidationError (name arg) Missing), s)
           else (Inr PyNone, s)))"

type_synonym namespace = "(string \<times> pyval) list"

fun parse_args_from ::
  "'s type_func \<Rightarrow> 's kwargs list \<Rightarrow> (string \<rightharpoonup> pyval) \<Rightarrow> namespace \<Rightarrow> 's \<Rightarrow> (exn + namespace) \<times> 's"
where
  "parse_args_from dflt [] source ns s = (Inr ns, s)"
| "parse_args_from dflt (arg # args) source ns s =
     (case parse dflt arg source s of
        (Inl e, s') \<Rightarrow> (Inl e, s')
      | (Inr v, s') \<Rightarrow> parse_args_from dflt args source (AList.update (name arg) v ns) s')"

definition parse_args ::
  "'s type_func \<Rightarrow> 's kwargs list \<Rightarrow> (string \<rightharpoonup> pyval) \<Rightarrow> 's \<Rightarrow> (exn + namespace) \<times> 's"
where
  "parse_args dflt self source s = parse_args_from dflt self source [] s"

subsection \<open>The library's default conversion\<close>

text \<open>
  An argument registered without \<open>type\<close> is converted by \<open>six.text_type\<close>, the
  text of the value: \<open>5\<close> becomes \<open>'5'\<close> and \<open>None\<close> becomes \<open>'None'\<close>.
\<close>

fun digits :: "nat \<Rightarrow> string" where
  "digits n =
     (if n < 10 then [''0123456789'' ! n]
      else digits (n div 10) @ [''0123456789'' ! (n mod 10)])"

definition text_type :: "pyval \<Rightarrow> pyval" where
  "text_type v =
     (case v of
        PyNone \<Rightarrow> PyStr ''None''
      | PyInt i \<Rightarrow> PyStr (if i < 0 then CHR ''-'' # digits (nat (- i)) else digits (nat i))
      | PyStr t \<Rightarrow> PyStr t
      | PyBool b \<Rightarrow> PyStr (if b then ''True'' else ''False''))"

definition default_type :: "'s type_func" where
  "default_type v s = (Inr (text_type v), s)"

section \<open>The persistence session\<close>

text \<open>
  \<open>backend.db.session\<close> is the SQLAlchemy session, shared by the handlers. The
  model keeps, for the one table a handler works on, the rows of the table, the
  objects handed to \<open>session.add\<close> and not yet flushed, and the number of commits so
  far.
\<close>

record 'r session =
  table :: "'r list"
  new :: "'r list"
  commits :: nat

text \<open>
  Which rows the storage layer admits is decided by the database schema, which is
  not part of this module: the rule is the parameter \<open>accepts\<close>, applied to the rows
  a row is to stand with and to the row. An INSERT is rejected when the rule refuses
  the new row next to the rows of the table, and an UPDATE when it refuses the new
  value of the row next to the other rows. A rejected statement raises
  \<open>IntegrityError\<close>.

  \<open>session.add\<close> and writing an attribute of a loaded object only change the
  session. The statements are sent when \<open>commit\<close> flushes the session, which is
  where the error surfaces: first the UPDATEs of the objects the handler has written
  to, \<open>dirty\<close>, each the position of a row and its new value, then the INSERTs of the
  added objects. A failed flush commits nothing: the rows stay as they were and the
  pending objects are discarded.
\<close>

definition add :: "'r \<Rightarrow> 'r session \<Rightarrow> 'r session" where
  "add r db = db\<lparr>new := new db @ [r]\<rparr>"

fun flush_dirty ::
  "('r list \<Rightarrow> 'r \<Rightarrow> bool) \<Rightarrow> 'r list \<Rightarrow> (nat \<times> 'r) list \<Rightarrow> exn + 'r list" where
  "flush_dirty accepts rows [] = Inr rows"
| "flush_dirty accepts rows ((i, r) # ds) =
     (if accepts (take i rows @ drop (Suc i) rows) r
      then flush_dirty accepts (rows[i := r]) ds
      else Inl IntegrityError)"

fun flush :: "('r list \<Rightarrow> 'r \<Rightarrow> bool) \<Rightarrow> 'r list \<Rightarrow> 'r list \<Rightarrow> exn + 'r list" where
  "flush accepts rows [] = Inr rows"
| "flush accepts rows (r # rs) =
     (if accepts rows r then flush accepts (rows @ [r]) rs else Inl IntegrityError)"

definition commit ::
  "('r list \<Rightarrow> 'r \<Rightarrow> bool) \<Rightarrow> (nat \<times> 'r) list \<Rightarrow> 'r session \<Rightarrow> (exn + unit) \<times> 'r session" where
  "commit accepts dirty db =
     (case flush_dirty accepts (table db) dirty of
        Inl e \<Rightarrow> (Inl e, db\<lparr>new := []\<rparr>)
      | Inr updated \<Rightarrow>
          (case flush accepts updated (new db) of
             Inl e \<Rightarrow> (Inl e, db\<lparr>new := []\<rparr>)
           | Inr rows \<Rightarrow> (Inr (), \<lparr>table = rows, new = [], commits = Suc (commits db)\<rparr>)))"

text \<open>
  \<open>session.execute\<close> of an INSERT statement is sent at once, and of a DELETE
  statement removes every row its WHERE clause selects and reports their number
  (\<open>rowcount\<close>).
\<close>

definition execute_insert ::
  "('r list \<Rightarrow> 'r \<Rightarrow> bool) \<Rightarrow> 'r \<Rightarrow> 'r session \<Rightarrow> (exn + unit) \<times> 'r session" where
  "execute_insert accepts r db =
     (if accepts (table db) r then (Inr (), db\<lparr>table := table db @ [r]\<rparr>)
      else (Inl IntegrityError, db))"

definition execute_delete :: "('r \<Rightarrow> bool) \<Rightarrow> 'r session \<Rightarrow> nat \<times> 'r session" where
  "execute_delete whereclause db =
     (length (filter whereclause (table db)),
      db\<lparr>table := filter (\<lambda>r. \<not> whereclause r) (table db)\<rparr>)"

text \<open>
  \<open>Query.delete\<close> is a bulk DELETE of the rows the query selects, sent at once. The
  storage layer rejects it when a row of another table refers to one of them; which
  rows are referred to is the parameter \<open>referenced\<close>.
\<close>

definition query_delete ::
  "('r \<Rightarrow> bool) \<Rightarrow> ('r \<Rightarrow> bool) \<Rightarrow> 'r session \<Rightarrow> (exn + nat) \<times> 'r session" where
  "query_delete referenced query db =
     (if list_ex referenced (filter query (table db)) then (Inl IntegrityError, db)
      else (Inr (length (filter query (table db))),
            db\<lparr>table := filter (\<lambda>r. \<not> query r) (table db)\<rparr>))"

text \<open>
  \<open>Query.first\<close>: the first row the query selects, if any. The row is an object of
  the session, so the model returns its position with it.
\<close>

definition first :: "('r \<Rightarrow> bool) \<Rightarrow> 'r list \<Rightarrow> (nat \<times> 'r) option" where
  "first query rows = find (\<lambda>(i, r). query r) (enumerate 0 rows)"

section \<open>Entities\<close>

text \<open>
  A mapped object is its attributes. \<open>resource_type(**args)\<close> is the constructor
  of a mapped class, which sets one attribute for each keyword.
\<close>

type_synonym entity = "string \<rightharpoonup> pyval"

definition setattr :: "entity \<Rightarrow> string \<Rightarrow> pyval \<Rightarrow> entity" where
  "setattr resource key val = resource(key \<mapsto> val)"

definition setattrs :: "namespace \<Rightarrow> entity \<Rightarrow> entity" where
  "setattrs items resource = fold (\<lambda>(key, val) r. setattr r key val) items resource"

definition resource_type :: "namespace \<Rightarrow> entity" where
  "resource_type args = setattrs args Map.empty"

section \<open>SimpleResource\<close>

text \<open>
  The abstract methods \<open>query\<close> and \<open>as_dict\<close> and the class attribute
  \<open>parser\<close> are parameters; \<open>query\<close> stands for the query built from the
  handler's arguments, that is, for the rows it selects. A handler returns its response
  or the exception that leaves it, with the session (and the conversion functions'
  state, where it parses). A handler that never returns a dictionary has the
  response type \<open>unit response\<close>.

  \<open>put\<close> writes the parsed fields to the located object and commits; the UPDATE of
  that object is part of the commit.
\<close>

definition SimpleResource_get ::
  "(entity \<Rightarrow> 'd) \<Rightarrow> (entity \<Rightarrow> bool) \<Rightarrow> entity session \<Rightarrow> 'd response" where
  "SimpleResource_get as_dict query db =
     (case first query (table db) of
        None \<Rightarrow> Response '''' 404
      | Some (i, resource) \<Rightarrow> Dict (as_dict resource))"

definition SimpleResource_put ::
  "'s type_func \<Rightarrow> 's kwargs list \<Rightarrow> (entity \<Rightarrow> 'd) \<Rightarrow> (entity list \<Rightarrow> entity \<Rightarrow> bool) \<Rightarrow>
   (entity \<Rightarrow> bool) \<Rightarrow> (string \<rightharpoonup> pyval) \<Rightarrow> entity session \<Rightarrow> 's \<Rightarrow>
   (exn + 'd response) \<times> entity session \<times> 's" where
  "SimpleResource_put dflt parser as_dict accepts query source db s =
     (case first query (table db) of
        None \<Rightarrow> (Inr (Response '''' 404), db, s)
      | Some (i, resource) \<Rightarrow>
          (case parse_args dflt parser source s of
             (Inl e, s') \<Rightarrow> (Inl e, db, s')
           | (Inr update, s') \<Rightarrow>
               (let resource' = setattrs update resource in
                case commit accepts [(i, resource')] db of
                  (Inl e, db') \<Rightarrow> (Inl e, db', s')
                | (Inr _, db') \<Rightarrow> (Inr (Dict (as_dict resource')), db', s'))))"

definition SimpleResource_delete ::
  "(entity list \<Rightarrow> entity \<Rightarrow> bool) \<Rightarrow> (entity \<Rightarrow> bool) \<Rightarrow> (entity \<Rightarrow> bool) \<Rightarrow>
   entity session \<Rightarrow> (exn + unit response) \<times> entity session" where
  "SimpleResource_delete accepts referenced query db =
     (case query_delete referenced query db of
        (Inl e, db') \<Rightarrow> (Inl e, db')
      | (Inr rows_deleted, db') \<Rightarrow>
          (case commit accepts [] db' of
             (Inl e, db'') \<Rightarrow> (Inl e, db'')
           | (Inr _, db'') \<Rightarrow>
               (if rows_deleted = 0 then (Inr (Response '''' 404), db'')
                else (Inr Returned_None, db''))))"

section \<open>SimpleCreate\<close>

text \<open>\<open>current_user_id\<close> is the value of \<open>auth.current_user_id()\<close>.\<close>

definition SimpleCreate_post ::
  "'s type_func \<Rightarrow> 's kwargs list \<Rightarrow> (entity \<Rightarrow> 'd) \<Rightarrow> (entity list \<Rightarrow> entity \<Rightarrow> bool) \<Rightarrow>
   pyval \<Rightarrow> (string \<rightharpoonup> pyval) \<Rightarrow> entity session \<Rightarrow> 's \<Rightarrow>
   (exn + 'd response) \<times> entity session \<times> 's" where
  "SimpleCreate_post dflt parser as_dict accepts current_user_id source db s =
     (case parse_args dflt parser source s of
        (Inl e, s') \<Rightarrow> (Inl e, db, s')
      | (Inr args, s') \<Rightarrow>
          (let args' = AList.update ''creator_id'' current_user_id args;
               new_resource = resource_type args'
           in case commit accepts [] (add new_resource db) of
                (Inl e, db') \<Rightarrow> (Inl e, db', s')
              | (Inr _, db') \<Rightarrow> (Inr (Dict (as_dict new_resource)), db', s')))"

section \<open>ManyToOneLink\<close>

definition build_args ::
  "'s type_func \<Rightarrow> 's kwargs list \<Rightarrow> pyval \<Rightarrow> string \<Rightarrow> pyval \<Rightarrow> (string \<rightharpoonup> pyval) \<Rightarrow> 's \<Rightarrow>
   (exn + namespace) \<times> 's" where
  "build_args dflt parser current_user_id parent_id_name parent_id source s =
     (case parse_args dflt parser source s of
        (Inl e, s') \<Rightarrow> (Inl e, s')
      | (Inr args, s') \<Rightarrow>
          (Inr (AList.update parent_id_name parent_id
                  (AList.update ''creator_id'' current_user_id args)), s'))"

text \<open>
  \<open>create_resource\<close>: the \<open>try\<close> encloses \<open>add\<close> and \<open>commit\<close>; the handler of
  \<open>IntegrityError\<close> answers 404, any other exception leaves the method.
\<close>

definition create_resource ::
  "(entity \<Rightarrow> 'd) \<Rightarrow> (entity list \<Rightarrow> entity \<Rightarrow> bool) \<Rightarrow> namespace \<Rightarrow> entity session \<Rightarrow>
   (exn + 'd response) \<times> entity session" where
  "create_resource as_dict accepts args db =
     (let new_resource = resource_type args in
      case commit accepts [] (add new_resource db) of
        (Inl e, db') \<Rightarrow>
          (if e = IntegrityError then (Inr (Response '''' 404), db') else (Inl e, db'))
      | (Inr _, db') \<Rightarrow> (Inr (Dict (as_dict new_resource)), db'))"

definition ManyToOneLink_post ::
  "'s type_func \<Rightarrow> 's kwargs list \<Rightarrow> (entity \<Rightarrow> 'd) \<Rightarrow> (entity list \<Rightarrow> entity \<Rightarrow> bool) \<Rightarrow>
   pyval \<Rightarrow> string \<Rightarrow> pyval \<Rightarrow> (string \<rightharpoonup> pyval) \<Rightarrow> entity session \<Rightarrow> 's \<Rightarrow>
   (exn + 'd response) \<times> entity session \<times> 's" where
  "ManyToOneLink_post dflt parser as_dict accepts current_user_id parent_id_name parent_id
       source db s =
     (case build_args dflt parser current_user_id parent_id_name parent_id source s of
        (Inl e, s') \<Rightarrow> (Inl e, db, s')
      | (Inr args, s') \<Rightarrow>
          (case create_resource as_dict accepts args db of
             (r, db') \<Rightarrow> (r, db', s')))"

section \<open>ManyToManyLink\<close>

text \<open>
  \<open>left_id_name\<close> and \<open>right_id_name\<close> stand for the two columns of
  \<open>join_table\<close>, so a row of the join table is the pair of their values, and the
  WHERE clause \<open>and_(left_id_name == left_id, right_id_name == right_id)\<close> selects
  the rows equal to the pair in both columns.

  The join table rejects a pair it already holds (the unique constraint the source's
  comment names). Whatever else its schema enforces, such as the two foreign keys, is
  the parameter \<open>fk\<close>. No row of another table refers to a row of the join table,
  which has no identity beyond the pair, so its DELETE is always accepted.
\<close>

type_synonym link = "int \<times> int"

definition join_accepts :: "(link \<Rightarrow> bool) \<Rightarrow> link list \<Rightarrow> link \<Rightarrow> bool" where
  "join_accepts fk rows r = (r \<notin> set rows \<and> fk r)"

definition ManyToManyLink_put ::
  "(link \<Rightarrow> bool) \<Rightarrow> int \<Rightarrow> int \<Rightarrow> link session \<Rightarrow> (exn + unit response) \<times> link session" where
  "ManyToManyLink_put fk left_id right_id db =
     (let insert = (left_id, right_id) in
      case execute_insert (join_accepts fk) insert db of
        (Inl e, db') \<Rightarrow>
          (if e = IntegrityError then (Inr Returned_None, db') else (Inl e, db'))
      | (Inr _, db') \<Rightarrow>
          (case commit (join_accepts fk) [] db' of
             (Inl e, db'') \<Rightarrow>
               (if e = IntegrityError then (Inr Returned_None, db'') else (Inl e, db''))
           | (Inr _, db'') \<Rightarrow> (Inr Returned_None, db'')))"

definition ManyToManyLink_delete ::
  "(link \<Rightarrow> bool) \<Rightarrow> int \<Rightarrow> int \<Rightarrow> link session \<Rightarrow> (exn + unit response) \<times> link session" where
  "ManyToManyLink_delete fk left_id right_id db =
     (case execute_delete (\<lambda>row. fst row = left_id \<and> snd row = right_id) db of
        (rowcount, db') \<Rightarrow>
          (case commit (join_accepts fk) [] db' of
             (Inl e, db'') \<Rightarrow> (Inl e, db'')
           | (Inr _, db'') \<Rightarrow>
               (if rowcount = 0 then (Inr (Response '''' 404), db'')
                else (Inr Returned_None, db''))))"

section \<open>Sample inputs\<close>

text \<open>
  Concrete inputs for the theorems below. \<open>int_only\<close> accepts integers and raises on
  everything else, in particular on \<open>None\<close>; \<open>str_only\<close> accepts strings;
  \<open>counted f\<close> runs \<open>f\<close> and counts the call in the state.
\<close>

definition int_only :: "pyval \<Rightarrow> error + pyval" where
  "int_only v =
     (case v of
        PyInt n \<Rightarrow> Inr (PyInt n)
      | PyNone \<Rightarrow> Inl (TypeError ''argument must be a number, not NoneType'')
      | _ \<Rightarrow> Inl (ValueError ''an integer is required''))"

definition str_only :: "pyval \<Rightarrow> error + pyval" where
  "str_only v =
     (case v of
        PyStr t \<Rightarrow> Inr (PyStr t)
      | _ \<Rightarrow> Inl (ValueError ''a string is required''))"

definition counted :: "(pyval \<Rightarrow> error + pyval) \<Rightarrow> nat type_func" where
  "counted f v n = (f v, Suc n)"

text \<open>
  The fields of the spec's scenario, \<open>{name: required string, age: optional int}\<close>,
  a required integer \<open>id\<close>, a required field \<open>note\<close> with no conversion
  function, and two optional fields \<open>x\<close> and \<open>y\<close>.
\<close>

definition name_field :: "nat kwargs" where
  "name_field = \<lparr>name = ''name'', required = Some True, type = Some (counted str_only)\<rparr>"

definition age_field :: "nat kwargs" where
  "age_field = \<lparr>name = ''age'', required = None, type = Some (counted int_only)\<rparr>"

definition id_field :: "nat kwargs" where
  "id_field = \<lparr>name = ''id'', required = Some True, type = Some (counted int_only)\<rparr>"

definition note_field :: "nat kwargs" where
  "note_field = \<lparr>name = ''note'', required = Some True, type = None\<rparr>"

definition x_field :: "nat kwargs" where
  "x_field = \<lparr>name = ''x'', required = None, type = Some (counted int_only)\<rparr>"

definition y_field :: "nat kwargs" where
  "y_field = \<lparr>name = ''y'', required = Some False, type = Some (counted str_only)\<rparr>"

text \<open>
  A serialisation that lists the given attributes; a query by \<open>id\<close>; storage rules
  (a unique column, a foreign key to the listed parents, foreign keys to the listed
  left and right ids); and four sessions.
\<close>

definition as_dict_keys :: "string list \<Rightarrow> entity \<Rightarrow> (string \<times> pyval option) list" where
  "as_dict_keys keys resource = map (\<lambda>key. (key, resource key)) keys"

definition by_id :: "int \<Rightarrow> entity \<Rightarrow> bool" where
  "by_id n resource = (resource ''id'' = Some (PyInt n))"

definition unique_on :: "string \<Rightarrow> entity list \<Rightarrow> entity \<Rightarrow> bool" where
  "unique_on key rows r = (r key \<notin> set (map (\<lambda>row. row key) rows))"

definition parent_in :: "int list \<Rightarrow> string \<Rightarrow> entity list \<Rightarrow> entity \<Rightarrow> bool" where
  "parent_in parents parent_id_name rows child =
     (child parent_id_name \<in> set (map (\<lambda>p. Some (PyInt p)) parents))"

definition ids_in :: "int list \<Rightarrow> int list \<Rightarrow> link \<Rightarrow> bool" where
  "ids_in lefts rights r = (fst r \<in> set lefts \<and> snd r \<in> set rights)"

definition one_row :: "entity session" where
  "one_row = \<lparr>table = [[''id'' \<mapsto> PyInt 1, ''x'' \<mapsto> PyInt 0, ''y'' \<mapsto> PyStr ''keep'']],
              new = [], commits = 0\<rparr>"

definition named_a :: "entity session" where
  "named_a = \<lparr>table = [[''name'' \<mapsto> PyStr ''a'', ''creator_id'' \<mapsto> PyInt 7]],
              new = [], commits = 0\<rparr>"

definition named_a_b :: "entity session" where
  "named_a_b = \<lparr>table = [[''id'' \<mapsto> PyInt 1, ''name'' \<mapsto> PyStr ''a''],
                         [''id'' \<mapsto> PyInt 2, ''name'' \<mapsto> PyStr ''b'']],
                new = [], commits = 0\<rparr>"

definition one_link :: "link session" where
  "one_link = \<lparr>table = [(1, 10)], new = [], commits = 0\<rparr>"

section \<open>Properties of the request parser\<close>

lemma parse_args_from_append:
  "parse_args_from dflt (xs @ ys) source ns s =
     (case parse_args_from dflt xs source ns s of
        (Inl e, s') \<Rightarrow> (Inl e, s')
      | (Inr ns', s') \<Rightarrow> parse_args_from dflt ys source ns' s')"
  by (induction xs arbitrary: ns s) (auto split: prod.splits sum.splits)

lemma parse_error_is_validation:
  "parse dflt arg source s = (Inl e, s') \<Longrightarrow> \<exists>f m. e = ValidationError f m"
  by (auto simp: parse_def split: option.splits prod.splits sum.splits if_splits)

lemma parse_args_from_error_is_validation:
  "parse_args_from dflt args source ns s = (Inl e, s') \<Longrightarrow> \<exists>f m. e = ValidationError f m"
proof (induction args arbitrary: ns s)
  case Nil
  then show ?case by simp
next
  case (Cons a args)
  then show ?case
    by (auto split: prod.splits sum.splits dest: parse_error_is_validation)
qed

text \<open>A key that no remaining argument is named after keeps its value.\<close>

lemma parse_args_from_keeps:
  "parse_args_from dflt args source ns s = (Inr ns', s') \<Longrightarrow> k \<notin> name ` set args \<Longrightarrow>
   map_of ns' k = map_of ns k"
proof (induction args arbitrary: ns s)
  case Nil
  then show ?case by simp
next
  case (Cons a args)
  then show ?case
    by (auto split: prod.splits sum.splits simp: update_conv')
qed

lemma parse_wrapped_required_null:
  assumes "source (name kw) = Some PyNone"
  shows "parse dflt (kw\<lparr>type := Some (new_type_func True f)\<rparr>) source s =
           (Inl (ValidationError (name kw) (Raised ''Required value may not be null'')), s)"
  using assms by (simp add: parse_def convert_def new_type_func_def)

lemma parse_wrapped_optional_null:
  assumes "source (name kw) = Some PyNone"
  shows "parse dflt (kw\<lparr>type := Some (new_type_func False f)\<rparr>) source s =
           (Inr PyNone, s)"
  using assms by (simp add: parse_def convert_def new_type_func_def)

lemma parse_absent:
  "parse dflt arg source s = (Inr v, s') \<Longrightarrow> source (name arg) = None \<Longrightarrow> v = PyNone \<and> s' = s"
  by (auto simp: parse_def split: if_splits)

lemma parse_args_from_Cons_Inr:
  assumes "parse_args_from dflt (a # args) source ns s = (Inr ns', s')"
  obtains v s1 where "parse dflt a source s = (Inr v, s1)"
    and "parse_args_from dflt args source (AList.update (name a) v ns) s1 = (Inr ns', s')"
proof (cases "parse dflt a source s")
  case (Pair r s1)
  with assms that show ?thesis
    by (cases r) simp_all
qed

text \<open>An argument absent from the payload is stored as \<open>None\<close> when the parse succeeds.\<close>

lemma parse_args_from_absent:
  "parse_args_from dflt args source ns s = (Inr ns', s') \<Longrightarrow> source k = None \<Longrightarrow>
   k \<in> name ` set args \<Longrightarrow> map_of ns' k = Some PyNone"
proof (induction args arbitrary: ns s)
  case Nil
  then show ?case by simp
next
  case (Cons a args)
  from Cons.prems(1) obtain v s1 where
    p: "parse dflt a source s = (Inr v, s1)" and
    rest: "parse_args_from dflt args source (AList.update (name a) v ns) s1 = (Inr ns', s')"
    by (rule parse_args_from_Cons_Inr)
  show ?case
  proof (cases "k \<in> name ` set args")
    case True
    from Cons.IH[OF rest Cons.prems(2) True] show ?thesis .
  next
    case False
    with Cons.prems(3) have k: "name a = k" by auto
    with p Cons.prems(2) have "v = PyNone" using parse_absent[of dflt a source s v s1] by simp
    with parse_args_from_keeps[OF rest False] k show ?thesis
      by (simp add: update_conv')
  qed
qed

text \<open>
  The empty payload: it parses when no declared argument is required, and fails on
  the first required argument otherwise, no conversion function having run.
\<close>

lemma parse_args_from_optional_empty:
  "\<forall>arg\<in>set args. \<not> is_required arg \<Longrightarrow>
   \<exists>ns'. parse_args_from dflt args Map.empty ns s = (Inr ns', s)"
  by (induction args arbitrary: ns) (auto simp: parse_def)

lemma parse_args_from_required_empty:
  "\<exists>arg\<in>set args. is_required arg \<Longrightarrow>
   \<exists>field. parse_args_from dflt args Map.empty ns s = (Inl (ValidationError field Missing), s)"
proof (induction args arbitrary: ns)
  case Nil
  then show ?case by simp
next
  case (Cons a args)
  show ?case
  proof (cases "is_required a")
    case True
    then show ?thesis by (simp add: parse_def)
  next
    case False
    with Cons.prems have "\<exists>arg\<in>set args. is_required arg" by simp
    from Cons.IH[OF this, of "AList.update (name a) PyNone ns"] False
    show ?thesis by (simp add: parse_def)
  qed
qed

text \<open>The namespace holds one entry for each declared name.\<close>

lemma parse_args_from_distinct:
  "parse_args_from dflt args source ns s = (Inr ns', s') \<Longrightarrow> distinct (map fst ns) \<Longrightarrow>
   distinct (map fst ns')"
  by (induction args arbitrary: ns s) (auto split: prod.splits sum.splits simp: distinct_update)

lemma parse_args_from_keys:
  "parse_args_from dflt args source ns s = (Inr ns', s') \<Longrightarrow>
   fst ` set ns' = fst ` set ns \<union> name ` set args"
  by (induction args arbitrary: ns s) (auto split: prod.splits sum.splits simp: dom_update)

lemma parse_args_distinct:
  "parse_args dflt parser source s = (Inr args, s') \<Longrightarrow> distinct (map fst args)"
  using parse_args_from_distinct[of dflt parser source "[]" s args s']
  by (simp add: parse_args_def)

section \<open>Properties of the session and of entities\<close>

lemma session_new_reset: "new db = [] \<Longrightarrow> db\<lparr>new := []\<rparr> = db"
  by (cases db) simp

lemma commit_clean:
  "new db = [] \<Longrightarrow> commit accepts [] db = (Inr (), db\<lparr>commits := Suc (commits db)\<rparr>)"
  by (cases db) (simp add: commit_def)

lemma commit_add:
  "new db = [] \<Longrightarrow> commit accepts [] (add r db) =
     (if accepts (table db) r
      then (Inr (), db\<lparr>table := table db @ [r], commits := Suc (commits db)\<rparr>)
      else (Inl IntegrityError, db))"
  by (cases db) (simp add: commit_def add_def)

text \<open>
  Committing one written object: the UPDATE is accepted or the commit raises and the
  session is as before.
\<close>

lemma commit_dirty:
  "new db = [] \<Longrightarrow> commit accepts [(i, r)] db =
     (if accepts (take i (table db) @ drop (Suc i) (table db)) r
      then (Inr (), db\<lparr>table := (table db)[i := r], commits := Suc (commits db)\<rparr>)
      else (Inl IntegrityError, db))"
  by (cases db) (simp add: commit_def)

lemma find_Some_set: "find P xs = Some x \<Longrightarrow> x \<in> set xs \<and> P x"
  by (induction xs) (auto split: if_splits)

lemma first_None: "\<forall>r\<in>set rows. \<not> query r \<Longrightarrow> first query rows = None"
  by (auto simp: first_def find_None_iff in_set_enumerate_eq)

lemma first_Some:
  "first query rows = Some (i, r) \<Longrightarrow> i < length rows \<and> rows ! i = r \<and> query r"
proof -
  assume a: "first query rows = Some (i, r)"
  then have "(i, r) \<in> set (enumerate 0 rows)" and "query r"
    unfolding first_def by (auto dest: find_Some_set)
  then show ?thesis by (simp add: in_set_enumerate_eq)
qed

lemma setattrs_other: "key \<notin> fst ` set items \<Longrightarrow> setattrs items r key = r key"
  unfolding setattrs_def
  by (induction items arbitrary: r) (auto simp: setattr_def)

lemma setattrs_fold:
  "setattrs items r key =
     (case map_of (rev items) key of None \<Rightarrow> r key | Some v \<Rightarrow> Some v)"
  unfolding setattrs_def
  by (induction items arbitrary: r) (auto simp: setattr_def map_add_def split: option.splits)

lemma setattrs_distinct:
  "distinct (map fst items) \<Longrightarrow>
   setattrs items r key = (case map_of items key of None \<Rightarrow> r key | Some v \<Rightarrow> Some v)"
proof -
  assume d: "distinct (map fst items)"
  then have "map_of (rev items) = map_of items"
    by (subst map_of_inject_set) (simp_all add: rev_map [symmetric])
  then show ?thesis by (simp add: setattrs_fold)
qed

text \<open>The constructor gives the new object the attributes of the argument dictionary.\<close>

lemma resource_type_distinct:
  "distinct (map fst args) \<Longrightarrow> resource_type args key = map_of args key"
  by (simp add: resource_type_def setattrs_distinct split: option.splits)

lemma count_list_distinct:
  "distinct xs \<Longrightarrow> count_list xs x = (if x \<in> set xs then 1 else 0)"
  by (induction xs) auto

text \<open>What \<open>put\<close> does once the row is located and the payload parsed.\<close>

lemma put_located:
  assumes "first query (table db) = Some (i, resource)" and "new db = []"
    and "parse_args dflt parser source s = (Inr update, s')"
  shows "SimpleResource_put dflt parser as_dict accepts query source db s =
           (if accepts (take i (table db) @ drop (Suc i) (table db)) (setattrs update resource)
            then (Inr (Dict (as_dict (setattrs update resource))),
                  db\<lparr>table := (table db)[i := setattrs update resource],
                     commits := Suc (commits db)\<rparr>, s')
            else (Inl IntegrityError, db, s'))"
  using assms by (simp add: SimpleResource_put_def Let_def commit_dirty)

text \<open>
  What the link \<open>put\<close> does: it answers as for a success whether the storage layer
  took the pair or not, and a second call changes nothing.
\<close>

lemma put_rejected:
  "\<not> join_accepts fk (table db) (left_id, right_id) \<Longrightarrow>
   ManyToManyLink_put fk left_id right_id db = (Inr Returned_None, db)"
  by (simp add: ManyToManyLink_put_def execute_insert_def)

lemma put_accepted:
  assumes "join_accepts fk (table db) (left_id, right_id)" and "new db = []"
  shows "ManyToManyLink_put fk left_id right_id db =
           (Inr Returned_None,
            db\<lparr>table := table db @ [(left_id, right_id)], commits := Suc (commits db)\<rparr>)"
proof -
  have "new (db\<lparr>table := table db @ [(left_id, right_id)]\<rparr>) = []"
    using assms(2) by simp
  then have "commit (join_accepts fk) [] (db\<lparr>table := table db @ [(left_id, right_id)]\<rparr>) =
      (Inr (), db\<lparr>table := table db @ [(left_id, right_id)], commits := Suc (commits db)\<rparr>)"
    by (simp add: commit_clean)
  with assms(1) show ?thesis
    by (simp add: ManyToManyLink_put_def execute_insert_def)
qed

section \<open>Null handling in the request parser (C1 to C3)\<close>

text \<open>
  C1, as the code has it. A required field \<open>F\<close> with a conversion function is added
  to a parser that already holds the arguments \<open>pre\<close>; \<open>post\<close> are the arguments
  added afterwards. When the payload's value for \<open>F\<close> is null, parsing fails with a
  validation error, for every conversion function \<open>type_func\<close>. When the arguments
  declared before \<open>F\<close> parse, the error is \<open>F\<close>'s, its message is the text
  "Required value may not be null" that the source raises, and the state is the one
  the earlier arguments left: \<open>type_func\<close> has not run. When one of them fails, the
  error is that of the first that does.
\<close>

theorem required_null_fails:
  assumes "type kw = Some type_func" and "is_required kw"
    and "source (name kw) = Some PyNone"
  shows "parse_args dflt (add_argument kw pre @ post) source s =
           (case parse_args dflt pre source s of
              (Inl e, s1) \<Rightarrow> (Inl e, s1)
            | (Inr ns, s1) \<Rightarrow>
                (Inl (ValidationError (name kw) (Raised ''Required value may not be null'')),
                 s1)) \<and>
         (\<exists>field message s'.
            parse_args dflt (add_argument kw pre @ post) source s =
              (Inl (ValidationError field message), s'))"
proof -
  let ?w = "kw\<lparr>type := Some (new_type_func (is_required kw) type_func)\<rparr>"
  have reg: "add_argument kw pre @ post = pre @ (?w # post)"
    using assms(1) by (simp add: add_argument_def super_add_argument_def)
  have step: "\<And>ns s1. parse_args_from dflt (?w # post) source ns s1 =
      (Inl (ValidationError (name kw) (Raised ''Required value may not be null'')), s1)"
    using assms by (simp add: parse_wrapped_required_null)
  have eq: "parse_args dflt (add_argument kw pre @ post) source s =
           (case parse_args dflt pre source s of
              (Inl e, s1) \<Rightarrow> (Inl e, s1)
            | (Inr ns, s1) \<Rightarrow>
                (Inl (ValidationError (name kw) (Raised ''Required value may not be null'')),
                 s1))"
    unfolding parse_args_def reg parse_args_from_append using step
    by (simp split: prod.splits sum.splits)
  show ?thesis
  proof (cases "parse_args dflt pre source s")
    case (Pair r s1)
    show ?thesis
    proof (cases r)
      case (Inl e)
      with Pair obtain f m where "e = ValidationError f m"
        using parse_args_from_error_is_validation[of dflt pre source "[]" s e s1]
        by (auto simp: parse_args_def)
      with Pair Inl eq show ?thesis by simp
    next
      case (Inr ns)
      with Pair eq show ?thesis by simp
    qed
  qed
qed

text \<open>
  The spec's scenario: schema \<open>{name: required string, age: optional int}\<close>, input
  \<open>{name: null, age: 5}\<close>. The parse fails on \<open>name\<close> and no conversion function
  has been called (the counter is still 0).
\<close>

theorem required_null_fails_witness:
  "type name_field = Some (counted str_only) \<and> is_required name_field \<and>
   [''name'' \<mapsto> PyNone, ''age'' \<mapsto> PyInt 5] (name name_field) = Some PyNone \<and>
   parse_args default_type (add_argument name_field [] @ add_argument age_field [])
     [''name'' \<mapsto> PyNone, ''age'' \<mapsto> PyInt 5] 0
   = (Inl (ValidationError ''name'' (Raised ''Required value may not be null'')), 0)"
  using required_null_fails
    [where kw = name_field and type_func = "counted str_only"
       and source = "[''name'' \<mapsto> PyNone, ''age'' \<mapsto> PyInt 5]"
       and dflt = default_type and pre = "[]" and post = "add_argument age_field []"
       and s = 0]
  by (simp add: name_field_def is_required_def parse_args_def)

text \<open>
  The statement of the spec fails when an earlier argument fails first: with \<open>id\<close>
  declared before \<open>name\<close> and the payload \<open>{id: "abc", name: null}\<close>, the error
  reported is that of \<open>id\<close>, with the message of its conversion.
\<close>

theorem earlier_field_fails_first_counterexample:
  "parse_args default_type (add_argument name_field (add_argument id_field []))
     [''id'' \<mapsto> PyStr ''abc'', ''name'' \<mapsto> PyNone] 0
   = (Inl (ValidationError ''id'' (Raised ''an integer is required'')), 1)"
  by (simp add: parse_args_def add_argument_def super_add_argument_def is_required_def
      parse_def convert_def new_type_func_def counted_def int_only_def
      name_field_def id_field_def)

text \<open>
  C2. An optional field \<open>F\<close> with a conversion function, whose value in the payload
  is null, contributes \<open>None\<close> to the namespace and nothing else: the parse of the
  whole schema is the parse of the arguments before \<open>F\<close>, then the entry
  \<open>F = None\<close>, then the parse of the arguments after \<open>F\<close>, from the state the
  earlier arguments left. This holds for every \<open>type_func\<close>, so neither its result on
  null nor its effects take part: it is not called. When the parse succeeds, the field
  is \<open>None\<close> in the result (no later argument being declared under the same name).
\<close>

theorem optional_null_skips_conversion:
  assumes "type kw = Some type_func" and "\<not> is_required kw"
    and "source (name kw) = Some PyNone"
  shows "parse_args dflt (add_argument kw pre @ post) source s =
           (case parse_args dflt pre source s of
              (Inl e, s1) \<Rightarrow> (Inl e, s1)
            | (Inr ns, s1) \<Rightarrow>
                parse_args_from dflt post source (AList.update (name kw) PyNone ns) s1) \<and>
         (\<forall>ns' s'. name kw \<notin> name ` set post \<and>
            parse_args dflt (add_argument kw pre @ post) source s = (Inr ns', s') \<longrightarrow>
            map_of ns' (name kw) = Some PyNone)"
proof -
  let ?w = "kw\<lparr>type := Some (new_type_func (is_required kw) type_func)\<rparr>"
  have reg: "add_argument kw pre @ post = pre @ (?w # post)"
    using assms(1) by (simp add: add_argument_def super_add_argument_def)
  have step: "\<And>ns s1. parse_args_from dflt (?w # post) source ns s1 =
      parse_args_from dflt post source (AList.update (name kw) PyNone ns) s1"
    using assms by (simp add: parse_wrapped_optional_null)
  have first: "parse_args dflt (add_argument kw pre @ post) source s =
           (case parse_args dflt pre source s of
              (Inl e, s1) \<Rightarrow> (Inl e, s1)
            | (Inr ns, s1) \<Rightarrow>
                parse_args_from dflt post source (AList.update (name kw) PyNone ns) s1)"
    unfolding parse_args_def reg parse_args_from_append using step
    by (simp split: prod.splits sum.splits)
  have second: "map_of ns' (name kw) = Some PyNone"
    if "name kw \<notin> name ` set post"
      and "parse_args dflt (add_argument kw pre @ post) source s = (Inr ns', s')" for ns' s'
  proof -
    from that(2) first obtain ns s1 where
      "parse_args_from dflt post source (AList.update (name kw) PyNone ns) s1 = (Inr ns', s')"
      by (auto split: prod.splits sum.splits)
    from parse_args_from_keeps[OF this that(1)] show ?thesis
      by (simp add: update_conv')
  qed
  from first second show ?thesis by blast
qed

text \<open>
  The spec's scenario: input \<open>{name: "Alice", age: null}\<close> parses to
  \<open>{name: "Alice", age: null}\<close>. \<open>int_only\<close> raises on null; the counter shows one
  call, the conversion of \<open>name\<close>.
\<close>

theorem optional_null_skips_conversion_witness:
  "type age_field = Some (counted int_only) \<and> \<not> is_required age_field \<and>
   [''name'' \<mapsto> PyStr ''Alice'', ''age'' \<mapsto> PyNone] (name age_field) = Some PyNone \<and>
   int_only PyNone = Inl (TypeError ''argument must be a number, not NoneType'') \<and>
   parse_args default_type (add_argument age_field (add_argument name_field []))
     [''name'' \<mapsto> PyStr ''Alice'', ''age'' \<mapsto> PyNone] 0
   = (Inr [(''name'', PyStr ''Alice''), (''age'', PyNone)], 1)"
  using optional_null_skips_conversion
    [of age_field "counted int_only" "[''name'' \<mapsto> PyStr ''Alice'', ''age'' \<mapsto> PyNone]"
        default_type "add_argument name_field []" "[]" 0]
  by (simp add: age_field_def name_field_def is_required_def parse_args_def
      add_argument_def super_add_argument_def parse_def convert_def new_type_func_def
      counted_def int_only_def str_only_def)

text \<open>
  C3. The source attempts the null check of required fields and misses the fields
  declared without a conversion function: \<open>add_argument\<close> installs its wrapper only
  under \<open>if type_func is not None\<close>, and hands such a field to the base parser as it
  is. For the required field \<open>note\<close>, declared without a conversion function, and
  the payload \<open>{note: null}\<close>, the null goes to the library's default conversion and
  the parse succeeds with the text \<open>'None'\<close>; the docstring of \<open>add_argument\<close>
  asks for a 400 ("If the argument is required, a null value should result in a 400
  error"), which is what the same field gets once it declares a conversion function.
\<close>

theorem untyped_required_null_is_accepted:
  "is_required note_field \<and> type note_field = None \<and>
   add_argument note_field [] = [note_field] \<and>
   parse_args default_type (add_argument note_field []) [''note'' \<mapsto> PyNone] 0
   = (Inr [(''note'', PyStr ''None'')], 0) \<and>
   parse_args default_type (add_argument (note_field\<lparr>type := Some (counted str_only)\<rparr>) [])
     [''note'' \<mapsto> PyNone] 0
   = (Inl (ValidationError ''note'' (Raised ''Required value may not be null'')), 0)"
  by (simp add: parse_args_def add_argument_def super_add_argument_def is_required_def
      parse_def convert_def default_type_def text_type_def new_type_func_def note_field_def)

section \<open>Reading, updating and deleting one resource (C9, C8, C10)\<close>

text \<open>
  C9. When the query selects no row, \<open>get\<close>, \<open>put\<close> and \<open>delete\<close> all answer
  with an empty 404. \<open>put\<close> looks the row up before it parses, so the payload, the
  schema and the conversion functions play no part and their state is untouched;
  \<open>delete\<close> still commits.
\<close>

theorem missing_row_is_not_found:
  assumes "\<forall>r\<in>set (table db). \<not> query r" and "new db = []"
  shows "SimpleResource_get as_dict query db = Response '''' 404 \<and>
         SimpleResource_put dflt parser as_dict accepts query source db s =
           (Inr (Response '''' 404), db, s) \<and>
         SimpleResource_delete accepts referenced query db =
           (Inr (Response '''' 404), db\<lparr>commits := Suc (commits db)\<rparr>)"
proof -
  from assms(1) have none: "first query (table db) = None"
    by (rule first_None)
  from assms(1) have keep: "filter (\<lambda>r. \<not> query r) (table db) = table db"
    and zero: "filter query (table db) = []"
    by (simp_all add: filter_empty_conv)
  have "new (db\<lparr>table := table db\<rparr>) = []"
    using assms(2) by simp
  then have "commit accepts [] (db\<lparr>table := table db\<rparr>) =
      (Inr (), db\<lparr>commits := Suc (commits db)\<rparr>)"
    by (simp add: commit_clean)
  with none keep zero show ?thesis
    by (simp add: SimpleResource_get_def SimpleResource_put_def SimpleResource_delete_def
        query_delete_def)
qed

text \<open>
  No row has id 2. The payload of the \<open>put\<close> would not pass validation; the answer
  is the 404 all the same.
\<close>

theorem missing_row_is_not_found_witness:
  "filter (by_id 2) (table one_row) = [] \<and> new one_row = [] \<and>
   SimpleResource_get (as_dict_keys [''id'', ''x'', ''y'']) (by_id 2) one_row = Response '''' 404 \<and>
   SimpleResource_put default_type (add_argument id_field []) (as_dict_keys [''id'', ''x'', ''y''])
     (unique_on ''id'') (by_id 2) [''id'' \<mapsto> PyStr ''abc''] one_row 0
   = (Inr (Response '''' 404), one_row, 0) \<and>
   SimpleResource_delete (unique_on ''id'') (by_id 1) (by_id 2) one_row
   = (Inr (Response '''' 404), one_row\<lparr>commits := 1\<rparr>)"
  using missing_row_is_not_found
    [where db = one_row and query = "by_id 2" and as_dict = "as_dict_keys [''id'', ''x'', ''y'']"
       and dflt = default_type and parser = "add_argument id_field []"
       and accepts = "unique_on ''id''" and referenced = "by_id 1"
       and source = "[''id'' \<mapsto> PyStr ''abc'']" and s = 0]
  by (simp add: one_row_def by_id_def)

text \<open>
  C8. On an existing resource, with a schema that declares the single field \<open>x\<close>
  and a payload whose \<open>x\<close> converts to \<open>v\<close>, \<open>put\<close> writes \<open>x := v\<close> on the
  located row and commits. When the storage layer accepts the update, the row is
  \<open>resource(x := v)\<close>, the other rows are as they were, and the serialised row is
  returned; when it rejects the update, \<open>IntegrityError\<close> leaves the handler and no
  row has changed. A payload that fails validation changes nothing either. For any
  schema, the attributes whose names the schema does not declare keep their values.
\<close>

theorem put_writes_declared_fields_only:
  assumes "first query (table db) = Some (i, resource)" and "new db = []"
  shows "(\<forall>v s'. parse dflt arg source s = (Inr v, s') \<longrightarrow>
            SimpleResource_put dflt [arg] as_dict accepts query source db s =
              (if accepts (take i (table db) @ drop (Suc i) (table db))
                    (resource(name arg \<mapsto> v))
               then (Inr (Dict (as_dict (resource(name arg \<mapsto> v)))),
                     db\<lparr>table := (table db)[i := resource(name arg \<mapsto> v)],
                        commits := Suc (commits db)\<rparr>, s')
               else (Inl IntegrityError, db, s'))) \<and>
         (\<forall>update s'. parse_args dflt parser source s = (Inr update, s') \<longrightarrow>
            (\<exists>resource'.
               SimpleResource_put dflt parser as_dict accepts query source db s =
                 (if accepts (take i (table db) @ drop (Suc i) (table db)) resource'
                  then (Inr (Dict (as_dict resource')),
                        db\<lparr>table := (table db)[i := resource'],
                           commits := Suc (commits db)\<rparr>, s')
                  else (Inl IntegrityError, db, s')) \<and>
               (\<forall>key. key \<notin> name ` set parser \<longrightarrow> resource' key = resource key))) \<and>
         (\<forall>e s'. parse_args dflt parser source s = (Inl e, s') \<longrightarrow>
            SimpleResource_put dflt parser as_dict accepts query source db s = (Inl e, db, s'))"
proof -
  have single: "SimpleResource_put dflt [arg] as_dict accepts query source db s =
              (if accepts (take i (table db) @ drop (Suc i) (table db))
                    (resource(name arg \<mapsto> v))
               then (Inr (Dict (as_dict (resource(name arg \<mapsto> v)))),
                     db\<lparr>table := (table db)[i := resource(name arg \<mapsto> v)],
                        commits := Suc (commits db)\<rparr>, s')
               else (Inl IntegrityError, db, s'))"
    if "parse dflt arg source s = (Inr v, s')" for v s'
  proof -
    from that have "parse_args dflt [arg] source s = (Inr [(name arg, v)], s')"
      by (simp add: parse_args_def)
    moreover have "setattrs [(name arg, v)] resource = resource(name arg \<mapsto> v)"
      by (simp add: setattrs_def setattr_def)
    ultimately show ?thesis
      using put_located[OF assms, of dflt "[arg]" source s "[(name arg, v)]" s' as_dict accepts]
      by simp
  qed
  have frame: "\<exists>resource'.
               SimpleResource_put dflt parser as_dict accepts query source db s =
                 (if accepts (take i (table db) @ drop (Suc i) (table db)) resource'
                  then (Inr (Dict (as_dict resource')),
                        db\<lparr>table := (table db)[i := resource'],
                           commits := Suc (commits db)\<rparr>, s')
                  else (Inl IntegrityError, db, s')) \<and>
               (\<forall>key. key \<notin> name ` set parser \<longrightarrow> resource' key = resource key)"
    if p: "parse_args dflt parser source s = (Inr update, s')" for update s'
  proof -
    from p have "fst ` set update = name ` set parser"
      using parse_args_from_keys[of dflt parser source "[]" s update s']
      by (simp add: parse_args_def)
    then have "\<forall>key. key \<notin> name ` set parser \<longrightarrow> setattrs update resource key = resource key"
      by (simp add: setattrs_other)
    with put_located[OF assms p, of as_dict accepts] show ?thesis by blast
  qed
  have invalid: "SimpleResource_put dflt parser as_dict accepts query source db s = (Inl e, db, s')"
    if "parse_args dflt parser source s = (Inl e, s')" for e s'
    using that assms(1) by (simp add: SimpleResource_put_def)
  from single frame invalid show ?thesis by blast
qed

text \<open>
  The spec's scenario: payload \<open>{x: 5}\<close>, schema \<open>{x}\<close>, on the row with id 1.
  \<open>id\<close> and \<open>y\<close> keep their values. And an update that the storage layer
  rejects: names are unique, and the row with id 2 is given the name of the row with
  id 1.
\<close>

theorem put_writes_declared_fields_only_witness:
  "first (by_id 1) (table one_row) =
     Some (0, [''id'' \<mapsto> PyInt 1, ''x'' \<mapsto> PyInt 0, ''y'' \<mapsto> PyStr ''keep'']) \<and>
   new one_row = [] \<and>
   SimpleResource_put default_type (add_argument x_field []) (as_dict_keys [''id'', ''x'', ''y''])
     (unique_on ''id'') (by_id 1) [''x'' \<mapsto> PyInt 5] one_row 0
   = (Inr (Dict [(''id'', Some (PyInt 1)), (''x'', Some (PyInt 5)), (''y'', Some (PyStr ''keep''))]),
      \<lparr>table = [[''id'' \<mapsto> PyInt 1, ''x'' \<mapsto> PyInt 0, ''y'' \<mapsto> PyStr ''keep'', ''x'' \<mapsto> PyInt 5]],
       new = [], commits = 1\<rparr>, 1) \<and>
   first (by_id 2) (table named_a_b) = Some (1, [''id'' \<mapsto> PyInt 2, ''name'' \<mapsto> PyStr ''b'']) \<and>
   new named_a_b = [] \<and>
   SimpleResource_put default_type (add_argument name_field []) (as_dict_keys [''id'', ''name''])
     (unique_on ''name'') (by_id 2) [''name'' \<mapsto> PyStr ''a''] named_a_b 0
   = (Inl IntegrityError, named_a_b, 1)"
  using put_writes_declared_fields_only
    [where db = one_row and query = "by_id 1" and i = 0
       and resource = "[''id'' \<mapsto> PyInt 1, ''x'' \<mapsto> PyInt 0, ''y'' \<mapsto> PyStr ''keep'']"
       and as_dict = "as_dict_keys [''id'', ''x'', ''y'']"
       and dflt = default_type
       and arg = "x_field\<lparr>type := Some (new_type_func False (counted int_only))\<rparr>"
       and accepts = "unique_on ''id''" and source = "[''x'' \<mapsto> PyInt 5]" and s = 0]
    put_writes_declared_fields_only
    [where db = named_a_b and query = "by_id 2" and i = 1
       and resource = "[''id'' \<mapsto> PyInt 2, ''name'' \<mapsto> PyStr ''b'']"
       and as_dict = "as_dict_keys [''id'', ''name'']"
       and dflt = default_type
       and arg = "name_field\<lparr>type := Some (new_type_func True (counted str_only))\<rparr>"
       and accepts = "unique_on ''name''" and source = "[''name'' \<mapsto> PyStr ''a'']" and s = 0]
  by (simp add: one_row_def named_a_b_def by_id_def first_def x_field_def name_field_def
      add_argument_def super_add_argument_def is_required_def parse_def convert_def
      new_type_func_def counted_def int_only_def str_only_def as_dict_keys_def unique_on_def)

text \<open>
  C10, as the code has it. On an existing resource, when the payload passes
  validation, \<open>put\<close> writes every declared field onto the located object before it
  commits: the object it commits holds the parsed value under each declared name,
  and \<open>None\<close> under a declared name absent from the payload. With a schema that
  declares no required field, the empty payload passes validation and every declared
  attribute is written as \<open>None\<close>. With a schema that declares a required field, the
  empty payload fails validation and nothing is written.
\<close>

theorem put_writes_every_declared_field:
  assumes "first query (table db) = Some (i, resource)" and "new db = []"
  shows "(\<forall>update s'. parse_args dflt parser source s = (Inr update, s') \<longrightarrow>
            (\<exists>resource'.
               SimpleResource_put dflt parser as_dict accepts query source db s =
                 (if accepts (take i (table db) @ drop (Suc i) (table db)) resource'
                  then (Inr (Dict (as_dict resource')),
                        db\<lparr>table := (table db)[i := resource'],
                           commits := Suc (commits db)\<rparr>, s')
                  else (Inl IntegrityError, db, s')) \<and>
               (\<forall>arg\<in>set parser. resource' (name arg) = map_of update (name arg) \<and>
                                   resource' (name arg) \<noteq> None) \<and>
               (\<forall>arg\<in>set parser. source (name arg) = None \<longrightarrow>
                                   resource' (name arg) = Some PyNone))) \<and>
         ((\<forall>arg\<in>set parser. \<not> is_required arg) \<longrightarrow>
            (\<exists>resource'.
               SimpleResource_put dflt parser as_dict accepts query Map.empty db s =
                 (if accepts (take i (table db) @ drop (Suc i) (table db)) resource'
                  then (Inr (Dict (as_dict resource')),
                        db\<lparr>table := (table db)[i := resource'],
                           commits := Suc (commits db)\<rparr>, s)
                  else (Inl IntegrityError, db, s)) \<and>
               (\<forall>arg\<in>set parser. resource' (name arg) = Some PyNone))) \<and>
         ((\<exists>arg\<in>set parser. is_required arg) \<longrightarrow>
            (\<exists>field.
               SimpleResource_put dflt parser as_dict accepts query Map.empty db s =
                 (Inl (ValidationError field Missing), db, s)))"
proof -
  have written: "\<exists>resource'.
               SimpleResource_put dflt parser as_dict accepts query src db s =
                 (if accepts (take i (table db) @ drop (Suc i) (table db)) resource'
                  then (Inr (Dict (as_dict resource')),
                        db\<lparr>table := (table db)[i := resource'],
                           commits := Suc (commits db)\<rparr>, s')
                  else (Inl IntegrityError, db, s')) \<and>
               (\<forall>arg\<in>set parser. resource' (name arg) = map_of update (name arg) \<and>
                                   resource' (name arg) \<noteq> None) \<and>
               (\<forall>arg\<in>set parser. src (name arg) = None \<longrightarrow>
                                   resource' (name arg) = Some PyNone)"
    if p: "parse_args dflt parser src s = (Inr update, s')" for src update s'
  proof -
    let ?r = "setattrs update resource"
    from p have pf: "parse_args_from dflt parser src [] s = (Inr update, s')"
      by (simp add: parse_args_def)
    note put = put_located[OF assms p, of as_dict accepts]
    from pf have keys: "fst ` set update = name ` set parser"
      using parse_args_from_keys[of dflt parser src "[]" s update s'] by simp
    from parse_args_distinct[OF p] have dist: "distinct (map fst update)" .
    have val: "?r (name arg) = map_of update (name arg) \<and> ?r (name arg) \<noteq> None"
      if "arg \<in> set parser" for arg
    proof -
      from that keys have "name arg \<in> fst ` set update" by blast
      then obtain v where "map_of update (name arg) = Some v"
        by (metis map_of_eq_None_iff not_Some_eq)
      then show ?thesis by (simp add: setattrs_distinct[OF dist])
    qed
    have absent: "?r (name arg) = Some PyNone"
      if "arg \<in> set parser" and "src (name arg) = None" for arg
    proof -
      from that have "map_of update (name arg) = Some PyNone"
        using parse_args_from_absent[OF pf, of "name arg"] by blast
      with val[OF that(1)] show ?thesis by simp
    qed
    from put val absent show ?thesis by blast
  qed
  have empty: "\<exists>resource'.
               SimpleResource_put dflt parser as_dict accepts query Map.empty db s =
                 (if accepts (take i (table db) @ drop (Suc i) (table db)) resource'
                  then (Inr (Dict (as_dict resource')),
                        db\<lparr>table := (table db)[i := resource'],
                           commits := Suc (commits db)\<rparr>, s)
                  else (Inl IntegrityError, db, s)) \<and>
               (\<forall>arg\<in>set parser. resource' (name arg) = Some PyNone)"
    if opt: "\<forall>arg\<in>set parser. \<not> is_required arg"
  proof -
    from parse_args_from_optional_empty[OF opt, of dflt "[]" s]
    obtain update where "parse_args dflt parser Map.empty s = (Inr update, s)"
      by (auto simp: parse_args_def)
    from written[OF this] show ?thesis by auto
  qed
  have refused: "\<exists>field.
               SimpleResource_put dflt parser as_dict accepts query Map.empty db s =
                 (Inl (ValidationError field Missing), db, s)"
    if req: "\<exists>arg\<in>set parser. is_required arg"
  proof -
    from parse_args_from_required_empty[OF req, of dflt "[]" s]
    obtain field where
      "parse_args dflt parser Map.empty s = (Inl (ValidationError field Missing), s)"
      by (auto simp: parse_args_def)
    with assms(1) show ?thesis
      by (auto simp: SimpleResource_put_def)
  qed
  from written[of source] empty refused show ?thesis by blast
qed

text \<open>
  Both declared fields are optional and the payload is empty: \<open>x\<close> and \<open>y\<close> are
  overwritten with \<open>None\<close>.
\<close>

theorem put_writes_every_declared_field_witness:
  "first (by_id 1) (table one_row) =
     Some (0, [''id'' \<mapsto> PyInt 1, ''x'' \<mapsto> PyInt 0, ''y'' \<mapsto> PyStr ''keep'']) \<and>
   new one_row = [] \<and>
   \<not> is_required (x_field\<lparr>type := Some (new_type_func False (counted int_only))\<rparr>) \<and>
   \<not> is_required (y_field\<lparr>type := Some (new_type_func False (counted str_only))\<rparr>) \<and>
   fst (SimpleResource_put default_type (add_argument y_field (add_argument x_field []))
     (as_dict_keys [''id'', ''x'', ''y'']) (unique_on ''id'') (by_id 1) Map.empty one_row 0)
   = Inr (Dict [(''id'', Some (PyInt 1)), (''x'', Some PyNone), (''y'', Some PyNone)])"
  using put_writes_every_declared_field
    [where db = one_row and query = "by_id 1" and i = 0
       and resource = "[''id'' \<mapsto> PyInt 1, ''x'' \<mapsto> PyInt 0, ''y'' \<mapsto> PyStr ''keep'']"
       and as_dict = "as_dict_keys [''id'', ''x'', ''y'']"
       and dflt = default_type
       and parser = "add_argument y_field (add_argument x_field [])"
       and accepts = "unique_on ''id''" and source = Map.empty and s = 0]
  by (simp add: one_row_def by_id_def first_def x_field_def y_field_def add_argument_def
      super_add_argument_def is_required_def as_dict_keys_def SimpleResource_put_def
      parse_args_def parse_def commit_def setattrs_def setattr_def unique_on_def)

text \<open>
  The statement of the spec fails for a schema that declares a required field next
  to the optional one: the empty payload is refused, the optional field \<open>x\<close> is
  not overwritten and the session is as before.
\<close>

theorem empty_payload_required_field_counterexample:
  "\<not> is_required (x_field\<lparr>type := Some (new_type_func False (counted int_only))\<rparr>) \<and>
   SimpleResource_put default_type (add_argument id_field (add_argument x_field []))
     (as_dict_keys [''id'', ''x'', ''y'']) (unique_on ''id'') (by_id 1) Map.empty one_row 0
   = (Inl (ValidationError ''id'' Missing), one_row, 0)"
  by (simp add: one_row_def by_id_def first_def x_field_def id_field_def add_argument_def
      super_add_argument_def is_required_def SimpleResource_put_def parse_args_def parse_def)

section \<open>Linking and unlinking (C4, C6)\<close>

text \<open>
  C4. \<open>delete\<close> removes the rows equal to \<open>(left_id, right_id)\<close> and no other,
  commits, and answers 404 when the pair was not in the join table and nothing (an
  empty success) when it was.
\<close>

theorem unlink_deletes_the_pair:
  assumes "new db = []"
  shows "ManyToManyLink_delete fk left_id right_id db =
           (Inr (if (left_id, right_id) \<in> set (table db) then Returned_None
                 else Response '''' 404),
            db\<lparr>table := filter (\<lambda>row. row \<noteq> (left_id, right_id)) (table db),
               commits := Suc (commits db)\<rparr>)"
proof -
  have sel: "(\<lambda>row::link. fst row = left_id \<and> snd row = right_id) =
      (\<lambda>row. row = (left_id, right_id))"
    by auto
  have com: "\<And>rows. commit (join_accepts fk) [] (db\<lparr>table := rows\<rparr>) =
      (Inr (), db\<lparr>table := rows, commits := Suc (commits db)\<rparr>)"
    using assms by (simp add: commit_clean)
  have cnt: "(filter (\<lambda>row. row = (left_id, right_id)) (table db) = []) =
      ((left_id, right_id) \<notin> set (table db))"
    by (auto simp: filter_empty_conv)
  show ?thesis
    unfolding ManyToManyLink_delete_def execute_delete_def sel
    by (simp add: com cnt)
qed

text \<open>Unlinking the stored pair \<open>(1, 10)\<close>, and the pair \<open>(2, 10)\<close> that was never linked.\<close>

theorem unlink_deletes_the_pair_witness:
  "new one_link = [] \<and>
   ManyToManyLink_delete (ids_in [1, 2] [10]) 1 10 one_link
   = (Inr Returned_None, \<lparr>table = [], new = [], commits = 1\<rparr>) \<and>
   ManyToManyLink_delete (ids_in [1, 2] [10]) 2 10 one_link
   = (Inr (Response '''' 404), \<lparr>table = [(1, 10)], new = [], commits = 1\<rparr>)"
  using unlink_deletes_the_pair [of one_link "ids_in [1, 2] [10]" 1 10]
    unlink_deletes_the_pair [of one_link "ids_in [1, 2] [10]" 2 10]
  by (simp add: one_link_def)

text \<open>
  For a pair the storage layer takes, or one the table already holds, the source does
  what linking twice should: both calls succeed, the second changes nothing, and the
  table holds the pair once.
\<close>

lemma link_twice:
  assumes "new db = []" and "distinct (table db)"
    and "fk (left_id, right_id) \<or> (left_id, right_id) \<in> set (table db)"
  shows "\<exists>db1. ManyToManyLink_put fk left_id right_id db = (Inr Returned_None, db1) \<and>
           ManyToManyLink_put fk left_id right_id db1 = (Inr Returned_None, db1) \<and>
           count_list (table db1) (left_id, right_id) = 1"
proof (cases "(left_id, right_id) \<in> set (table db)")
  case True
  then have "\<not> join_accepts fk (table db) (left_id, right_id)"
    by (simp add: join_accepts_def)
  from put_rejected[OF this] True assms(2) show ?thesis
    by (simp add: count_list_distinct)
next
  case False
  let ?db1 = "db\<lparr>table := table db @ [(left_id, right_id)], commits := Suc (commits db)\<rparr>"
  from False assms(3) have "join_accepts fk (table db) (left_id, right_id)"
    by (simp add: join_accepts_def)
  from put_accepted[OF this assms(1)]
  have one: "ManyToManyLink_put fk left_id right_id db = (Inr Returned_None, ?db1)" .
  have "\<not> join_accepts fk (table ?db1) (left_id, right_id)"
    by (simp add: join_accepts_def)
  from put_rejected[OF this]
  have two: "ManyToManyLink_put fk left_id right_id ?db1 = (Inr Returned_None, ?db1)" .
  from False assms(2) have "count_list (table ?db1) (left_id, right_id) = 1"
    by (simp add: count_list_distinct)
  with one two show ?thesis by blast
qed

text \<open>
  C6. Linking twice should leave exactly one association row. The source breaks
  this for a pair that the join table rejects for another reason than the unique
  constraint: the handler of \<open>put\<close> catches every \<open>IntegrityError\<close>, under a
  comment that names the unique constraint only. The table holds \<open>(1, 10)\<close> and the
  left ids 1 and 2 exist; linking \<open>(99, 10)\<close> twice answers as for a success both
  times and leaves no row \<open>(99, 10)\<close>.
\<close>

theorem link_to_missing_row_is_absorbed:
  "ManyToManyLink_put (ids_in [1, 2] [10]) 99 10 one_link = (Inr Returned_None, one_link) \<and>
   ManyToManyLink_put (ids_in [1, 2] [10]) 99 10
     (snd (ManyToManyLink_put (ids_in [1, 2] [10]) 99 10 one_link))
   = (Inr Returned_None, one_link) \<and>
   count_list
     (table (snd (ManyToManyLink_put (ids_in [1, 2] [10]) 99 10
        (snd (ManyToManyLink_put (ids_in [1, 2] [10]) 99 10 one_link)))))
     (99, 10) = 0"
  by (simp add: one_link_def ManyToManyLink_put_def execute_insert_def join_accepts_def
      ids_in_def)

section \<open>Creating resources (C5, C7)\<close>

text \<open>
  C5. After a successful parse, \<open>post\<close> builds the child from the parsed arguments,
  the caller's identity under \<open>creator_id\<close> and \<open>parent_id\<close> under
  \<open>parent_id_name\<close>. When the storage layer rejects the insert the answer is an
  empty 404 and the session is as before; when it accepts, the child is stored, the
  transaction committed and the serialised child returned. The child's
  \<open>parent_id_name\<close> attribute is \<open>parent_id\<close>, and its \<open>creator_id\<close> is the
  caller's identity (\<open>parent_id_name\<close> being another attribute than \<open>creator_id\<close>).
\<close>

theorem child_creation:
  assumes "parse_args dflt parser source s = (Inr args, s')" and "new db = []"
  shows "(let child = resource_type (AList.update parent_id_name parent_id
                        (AList.update ''creator_id'' current_user_id args)) in
          (\<not> accepts (table db) child \<longrightarrow>
             ManyToOneLink_post dflt parser as_dict accepts current_user_id parent_id_name
               parent_id source db s = (Inr (Response '''' 404), db, s')) \<and>
          (accepts (table db) child \<longrightarrow>
             ManyToOneLink_post dflt parser as_dict accepts current_user_id parent_id_name
               parent_id source db s =
               (Inr (Dict (as_dict child)),
                db\<lparr>table := table db @ [child], commits := Suc (commits db)\<rparr>, s')) \<and>
          child parent_id_name = Some parent_id \<and>
          (parent_id_name \<noteq> ''creator_id'' \<longrightarrow> child ''creator_id'' = Some current_user_id))"
proof -
  let ?args = "AList.update parent_id_name parent_id
                 (AList.update ''creator_id'' current_user_id args)"
  let ?child = "resource_type ?args"
  have build: "build_args dflt parser current_user_id parent_id_name parent_id source s =
      (Inr ?args, s')"
    using assms(1) by (simp add: build_args_def)
  have rejected: "\<not> accepts (table db) ?child \<longrightarrow>
      ManyToOneLink_post dflt parser as_dict accepts current_user_id parent_id_name
        parent_id source db s = (Inr (Response '''' 404), db, s')"
    using assms(2)
    by (simp add: ManyToOneLink_post_def build create_resource_def Let_def commit_add)
  have accepted: "accepts (table db) ?child \<longrightarrow>
      ManyToOneLink_post dflt parser as_dict accepts current_user_id parent_id_name
        parent_id source db s =
        (Inr (Dict (as_dict ?child)),
         db\<lparr>table := table db @ [?child], commits := Suc (commits db)\<rparr>, s')"
    using assms(2)
    by (simp add: ManyToOneLink_post_def build create_resource_def Let_def commit_add)
  from parse_args_distinct[OF assms(1)] have "distinct (map fst ?args)"
    by (simp add: distinct_update)
  then have attr: "\<And>key. ?child key = map_of ?args key"
    by (rule resource_type_distinct)
  have parent: "?child parent_id_name = Some parent_id"
    by (simp add: attr update_conv')
  have creator: "parent_id_name \<noteq> ''creator_id'' \<longrightarrow> ?child ''creator_id'' = Some current_user_id"
    by (simp add: attr update_conv')
  from rejected accepted parent creator show ?thesis
    by (simp add: Let_def)
qed

text \<open>
  The spec's scenario: payload \<open>{name: "a"}\<close> under the existing parent 3, caller 7;
  and the same under the missing parent 4.
\<close>

theorem child_creation_witness:
  "parse_args default_type (add_argument name_field []) [''name'' \<mapsto> PyStr ''a''] 0
   = (Inr [(''name'', PyStr ''a'')], 1) \<and>
   new \<lparr>table = [], new = [], commits = 0\<rparr> = ([] :: entity list) \<and>
   fst (ManyToOneLink_post default_type (add_argument name_field [])
     (as_dict_keys [''name'', ''creator_id'', ''parent_id'']) (parent_in [3] ''parent_id'')
     (PyInt 7) ''parent_id'' (PyInt 3) [''name'' \<mapsto> PyStr ''a'']
     \<lparr>table = [], new = [], commits = 0\<rparr> 0)
   = Inr (Dict [(''name'', Some (PyStr ''a'')), (''creator_id'', Some (PyInt 7)),
                (''parent_id'', Some (PyInt 3))]) \<and>
   ManyToOneLink_post default_type (add_argument name_field [])
     (as_dict_keys [''name'', ''creator_id'', ''parent_id'']) (parent_in [3] ''parent_id'')
     (PyInt 7) ''parent_id'' (PyInt 4) [''name'' \<mapsto> PyStr ''a'']
     \<lparr>table = [], new = [], commits = 0\<rparr> 0
   = (Inr (Response '''' 404), \<lparr>table = [], new = [], commits = 0\<rparr>, 1)"
  using child_creation
    [where dflt = default_type and parser = "add_argument name_field []"
       and source = "[''name'' \<mapsto> PyStr ''a'']" and s = 0
       and args = "[(''name'', PyStr ''a'')]" and s' = 1
       and db = "\<lparr>table = [], new = [], commits = 0\<rparr>"
       and as_dict = "as_dict_keys [''name'', ''creator_id'', ''parent_id'']"
       and accepts = "parent_in [3] ''parent_id''" and current_user_id = "PyInt 7"
       and parent_id_name = "''parent_id''" and parent_id = "PyInt 3"]
    child_creation
    [where dflt = default_type and parser = "add_argument name_field []"
       and source = "[''name'' \<mapsto> PyStr ''a'']" and s = 0
       and args = "[(''name'', PyStr ''a'')]" and s' = 1
       and db = "\<lparr>table = [], new = [], commits = 0\<rparr>"
       and as_dict = "as_dict_keys [''name'', ''creator_id'', ''parent_id'']"
       and accepts = "parent_in [3] ''parent_id''" and current_user_id = "PyInt 7"
       and parent_id_name = "''parent_id''" and parent_id = "PyInt 4"]
  by (simp add: parse_args_def add_argument_def super_add_argument_def name_field_def
      is_required_def parse_def convert_def new_type_func_def counted_def str_only_def
      Let_def resource_type_def setattrs_def setattr_def parent_in_def as_dict_keys_def)

text \<open>
  C7, as the code has it. A constraint violation is answered with a 404 by the child
  creation under a missing parent (the storage rule admitting only children of the
  parents in \<open>parents\<close>), and as a success by the link of a pair that the join table
  already holds. Nowhere else is it handled: raised by the insert of the
  owned-resource creator, by the update of \<open>SimpleResource.put\<close> or by the delete of
  \<open>SimpleResource.delete\<close>, the \<open>IntegrityError\<close> leaves the handler, and the
  session is as before.
\<close>

theorem constraint_violation_outcomes:
  assumes "parse_args dflt parser source s = (Inr args, s')" and "new db = []"
  shows "((\<forall>rows r. accepts rows r \<longrightarrow> r parent_id_name \<in> Some ` parents) \<and>
            parent_id \<notin> parents \<longrightarrow>
            ManyToOneLink_post dflt parser as_dict accepts current_user_id parent_id_name
              parent_id source db s = (Inr (Response '''' 404), db, s')) \<and>
         ((left_id, right_id) \<in> set (table links) \<longrightarrow>
            ManyToManyLink_put fk left_id right_id links = (Inr Returned_None, links)) \<and>
         (\<not> accepts (table db)
              (resource_type (AList.update ''creator_id'' current_user_id args)) \<longrightarrow>
            SimpleCreate_post dflt parser as_dict accepts current_user_id source db s =
              (Inl IntegrityError, db, s')) \<and>
         (\<forall>i resource. first query (table db) = Some (i, resource) \<and>
            \<not> accepts (take i (table db) @ drop (Suc i) (table db)) (setattrs args resource) \<longrightarrow>
            SimpleResource_put dflt parser as_dict accepts query source db s =
              (Inl IntegrityError, db, s')) \<and>
         ((\<exists>r\<in>set (table db). query r \<and> referenced r) \<longrightarrow>
            SimpleResource_delete accepts referenced query db = (Inl IntegrityError, db))"
proof -
  let ?args = "AList.update parent_id_name parent_id
                 (AList.update ''creator_id'' current_user_id args)"
  have child: "ManyToOneLink_post dflt parser as_dict accepts current_user_id parent_id_name
        parent_id source db s = (Inr (Response '''' 404), db, s')"
    if rule: "\<forall>rows r. accepts rows r \<longrightarrow> r parent_id_name \<in> Some ` parents"
      and missing: "parent_id \<notin> parents"
  proof -
    from parse_args_distinct[OF assms(1)] have "distinct (map fst ?args)"
      by (simp add: distinct_update)
    then have "resource_type ?args parent_id_name = map_of ?args parent_id_name"
      by (rule resource_type_distinct)
    then have "resource_type ?args parent_id_name = Some parent_id"
      by (simp add: update_conv')
    with missing have "resource_type ?args parent_id_name \<notin> Some ` parents"
      by auto
    with rule have "\<not> accepts (table db) (resource_type ?args)"
      by blast
    with assms show ?thesis
      by (simp add: ManyToOneLink_post_def build_args_def create_resource_def Let_def commit_add)
  qed
  have link: "ManyToManyLink_put fk left_id right_id links = (Inr Returned_None, links)"
    if "(left_id, right_id) \<in> set (table links)"
  proof -
    from that have "\<not> join_accepts fk (table links) (left_id, right_id)"
      by (simp add: join_accepts_def)
    then show ?thesis by (rule put_rejected)
  qed
  have create: "\<not> accepts (table db)
        (resource_type (AList.update ''creator_id'' current_user_id args)) \<longrightarrow>
      SimpleCreate_post dflt parser as_dict accepts current_user_id source db s =
        (Inl IntegrityError, db, s')"
    using assms by (simp add: SimpleCreate_post_def Let_def commit_add)
  have update: "SimpleResource_put dflt parser as_dict accepts query source db s =
        (Inl IntegrityError, db, s')"
    if "first query (table db) = Some (i, resource)"
      and "\<not> accepts (take i (table db) @ drop (Suc i) (table db)) (setattrs args resource)"
    for i resource
    using put_located[OF that(1) assms(2) assms(1), of as_dict accepts] that(2) by simp
  have delete: "SimpleResource_delete accepts referenced query db = (Inl IntegrityError, db)"
    if "\<exists>r\<in>set (table db). query r \<and> referenced r"
  proof -
    from that have "list_ex referenced (filter query (table db))"
      by (auto simp: list_ex_iff)
    then show ?thesis
      by (simp add: SimpleResource_delete_def query_delete_def)
  qed
  from child link create update delete show ?thesis by blast
qed

text \<open>
  A child under the missing parent 4, and the link \<open>(1, 10)\<close> once more; then a
  second resource named "a" where names are unique, the row with id 2 renamed to the
  name of the row with id 1, and the delete of the row with id 1, which another
  table refers to.
\<close>

theorem constraint_violation_outcomes_witness:
  "parse_args default_type (add_argument name_field []) [''name'' \<mapsto> PyStr ''a''] 0
   = (Inr [(''name'', PyStr ''a'')], 1) \<and>
   ManyToOneLink_post default_type (add_argument name_field [])
     (as_dict_keys [''name'', ''creator_id'']) (parent_in [3] ''parent_id'') (PyInt 7)
     ''parent_id'' (PyInt 4) [''name'' \<mapsto> PyStr ''a''] named_a 0
   = (Inr (Response '''' 404), named_a, 1) \<and>
   ManyToManyLink_put (ids_in [1, 2] [10]) 1 10 one_link = (Inr Returned_None, one_link) \<and>
   SimpleCreate_post default_type (add_argument name_field [])
     (as_dict_keys [''name'', ''creator_id'']) (unique_on ''name'') (PyInt 7)
     [''name'' \<mapsto> PyStr ''a''] named_a 0
   = (Inl IntegrityError, named_a, 1) \<and>
   SimpleResource_put default_type (add_argument name_field [])
     (as_dict_keys [''id'', ''name'']) (unique_on ''name'') (by_id 2)
     [''name'' \<mapsto> PyStr ''a''] named_a_b 0
   = (Inl IntegrityError, named_a_b, 1) \<and>
   SimpleResource_delete (unique_on ''name'') (by_id 1) (by_id 1) named_a_b
   = (Inl IntegrityError, named_a_b)"
  using constraint_violation_outcomes
    [where dflt = default_type and parser = "add_argument name_field []"
       and source = "[''name'' \<mapsto> PyStr ''a'']" and s = 0
       and args = "[(''name'', PyStr ''a'')]" and s' = 1
       and db = named_a and as_dict = "as_dict_keys [''name'', ''creator_id'']"
       and accepts = "parent_in [3] ''parent_id''" and current_user_id = "PyInt 7"
       and parent_id_name = "''parent_id''" and parent_id = "PyInt 4"
       and parents = "{PyInt 3}"
       and fk = "ids_in [1, 2] [10]" and links = one_link and left_id = 1 and right_id = 10]
    constraint_violation_outcomes
    [where dflt = default_type and parser = "add_argument name_field []"
       and source = "[''name'' \<mapsto> PyStr ''a'']" and s = 0
       and args = "[(''name'', PyStr ''a'')]" and s' = 1
       and db = named_a and as_dict = "as_dict_keys [''name'', ''creator_id'']"
       and accepts = "unique_on ''name''" and current_user_id = "PyInt 7"]
    constraint_violation_outcomes
    [where dflt = default_type and parser = "add_argument name_field []"
       and source = "[''name'' \<mapsto> PyStr ''a'']" and s = 0
       and args = "[(''name'', PyStr ''a'')]" and s' = 1
       and db = named_a_b and as_dict = "as_dict_keys [''id'', ''name'']"
       and accepts = "unique_on ''name''" and query = "by_id 2"]
    constraint_violation_outcomes
    [where dflt = default_type and parser = "add_argument name_field []"
       and source = "[''name'' \<mapsto> PyStr ''a'']" and s = 0
       and args = "[(''name'', PyStr ''a'')]" and s' = 1
       and db = named_a_b
       and accepts = "unique_on ''name''" and query = "by_id 1" and referenced = "by_id 1"]
  by (simp add: parse_args_def add_argument_def super_add_argument_def name_field_def
      is_required_def parse_def convert_def new_type_func_def counted_def str_only_def
      resource_type_def setattrs_def setattr_def unique_on_def parent_in_def
      named_a_def named_a_b_def one_link_def by_id_def first_def
      SimpleResource_put_def SimpleResource_delete_def query_delete_def
      ManyToOneLink_post_def build_args_def create_resource_def SimpleCreate_post_def
      ManyToManyLink_put_def execute_insert_def join_accepts_def ids_in_def
      commit_def add_def Let_def)

text \<open>
  The statement of the spec fails for the owned-resource creator: the constraint
  violation is the handler's outcome, raw.
\<close>

theorem creator_propagates_counterexample:
  "fst (SimpleCreate_post default_type (add_argument name_field [])
     (as_dict_keys [''name'', ''creator_id'']) (unique_on ''name'') (PyInt 8)
     [''name'' \<mapsto> PyStr ''a''] named_a 0)
   = Inl IntegrityError"
  by (simp add: SimpleCreate_post_def parse_args_def add_argument_def super_add_argument_def
      name_field_def is_required_def parse_def convert_def new_type_func_def counted_def
      str_only_def resource_type_def setattrs_def setattr_def unique_on_def named_a_def
      commit_def add_def Let_def)

end
